theory Spec2Isabelle
  imports Complex_Main
begin

section \<open>Values of the program\<close>

text \<open>
  A Python \<^verbatim>\<open>str\<close> is a sequence of Unicode code points; \<^verbatim>\<open>len\<close> and slicing
  count code points. A code point is a natural number here, and an ASCII literal of
  the source is written \<open>str ''...''\<close>.
\<close>

type_synonym pystr = "nat list"

definition str :: "string \<Rightarrow> pystr" where
  "str s = map of_char s"

text \<open>
  Exceptions are values. Each carries the text that \<^verbatim>\<open>f"{e}"\<close> prints.
  \<open>Upstream\<close> is any exception raised inside an external collaborator (the chat
  transport, the completion service, the spreadsheet).
\<close>

datatype exn =
    ValueError pystr
  | IndexError pystr
  | RuntimeError pystr
  | Upstream pystr

fun exn_str :: "exn \<Rightarrow> pystr" where
  "exn_str (ValueError m) = m"
| "exn_str (IndexError m) = m"
| "exn_str (RuntimeError m) = m"
| "exn_str (Upstream m) = m"

section \<open>Helper: split long messages (main.py, lines 46-47)\<close>

text \<open>
  \<^verbatim>\<open>range(start, stop, step)\<close>: a zero step raises ValueError; a positive step counts
  up while below \<open>stop\<close>; a negative step counts down while above \<open>stop\<close>.
\<close>

function py_range_items :: "int \<Rightarrow> int \<Rightarrow> int \<Rightarrow> int list" where
  "py_range_items i stop step =
     (if (0 < step \<and> i < stop) \<or> (step < 0 \<and> stop < i)
      then i # py_range_items (i + step) stop step
      else [])"
  by pat_completeness auto
termination
  by (relation "measure (\<lambda>(i, stop, step). nat (if 0 < step then stop - i else i - stop))") auto

declare py_range_items.simps [simp del]

definition py_range :: "int \<Rightarrow> int \<Rightarrow> int \<Rightarrow> exn + int list" where
  "py_range start stop step =
     (if step = 0 then Inl (ValueError (str ''range() arg 3 must not be zero''))
      else Inr (py_range_items start stop step))"

text \<open>
  \<^verbatim>\<open>xs[lo:hi]\<close>: a negative bound counts from the end, both bounds are then clamped
  to \<open>0..len(xs)\<close>, and the slice is empty when the upper bound is not above the lower.
\<close>

definition slice_bound :: "int \<Rightarrow> int \<Rightarrow> int" where
  "slice_bound n b = max 0 (min n (if b < 0 then b + n else b))"

definition py_slice :: "'a list \<Rightarrow> int \<Rightarrow> int \<Rightarrow> 'a list" where
  "py_slice xs lo hi =
     (let n = int (length xs); l = slice_bound n lo; h = slice_bound n hi
      in take (nat (h - l)) (drop (nat l) xs))"

text \<open>
  \<^verbatim>\<open>[text[i:i+max_len] for i in range(0, len(text), max_len)]\<close>. The only step that
  can raise is \<^verbatim>\<open>range\<close>.
\<close>

definition split_message :: "'a list \<Rightarrow> int \<Rightarrow> exn + 'a list list" where
  "split_message text max_len =
     (case py_range 0 (int (length text)) max_len of
        Inl e \<Rightarrow> Inl e
      | Inr idx \<Rightarrow> Inr (map (\<lambda>i. py_slice text i (i + max_len)) idx))"

section \<open>The world the handlers act on\<close>

text \<open>
  The handlers mutate one module-level table and call three external collaborators.
  The world records the table and, for every collaborator, the calls made so far in
  order (a call is recorded whether or not it then raises), together with the records
  written through \<^verbatim>\<open>logging\<close>.
\<close>

type_synonym user_id = int

datatype message = Text pystr | Markdown pystr

datatype level = ERROR | CRITICAL

record world =
  user_last_ask :: "user_id \<rightharpoonup> real"
  replies :: "message list"
  openai_calls :: "pystr list"
  sheet_calls :: "pystr list list"
  logged :: "(level \<times> pystr) list"

text \<open>
  The collaborators are outside the repository. Each is a parameter: given the calls
  it has already received and the present argument, it raises (\<open>Some e\<close>, \<open>Inl e\<close>)
  or returns. The completion service returns the contents of the response's choices.
\<close>

record collab =
  transport :: "message list \<Rightarrow> message \<Rightarrow> exn option"
  completion :: "pystr list \<Rightarrow> pystr \<Rightarrow> exn + pystr list"
  sheet :: "pystr list list \<Rightarrow> pystr list \<Rightarrow> exn option"

text \<open>\<^verbatim>\<open>await update.message.reply_text(s)\<close> and \<^verbatim>\<open>reply_markdown(s)\<close>.\<close>

definition reply_text :: "collab \<Rightarrow> pystr \<Rightarrow> world \<Rightarrow> (exn + unit) \<times> world" where
  "reply_text c s w =
     (let w' = w\<lparr>replies := replies w @ [Text s]\<rparr>
      in case transport c (replies w) (Text s) of
           None \<Rightarrow> (Inr (), w')
         | Some e \<Rightarrow> (Inl e, w'))"

definition reply_markdown :: "collab \<Rightarrow> pystr \<Rightarrow> world \<Rightarrow> (exn + unit) \<times> world" where
  "reply_markdown c s w =
     (let w' = w\<lparr>replies := replies w @ [Markdown s]\<rparr>
      in case transport c (replies w) (Markdown s) of
           None \<Rightarrow> (Inr (), w')
         | Some e \<Rightarrow> (Inl e, w'))"

text \<open>\<^verbatim>\<open>logging.error(s)\<close>.\<close>

definition logging_error :: "pystr \<Rightarrow> world \<Rightarrow> world" where
  "logging_error s w = w\<lparr>logged := logged w @ [(ERROR, s)]\<rparr>"

text \<open>
  \<^verbatim>\<open>openai.ChatCompletion.create(model="gpt-4", messages=[{"role": "user", "content": query}])\<close>;
  the model name and the role are constants of the call.
\<close>

definition ChatCompletion_create :: "collab \<Rightarrow> pystr \<Rightarrow> world \<Rightarrow> (exn + pystr list) \<times> world" where
  "ChatCompletion_create c query w =
     (completion c (openai_calls w) query, w\<lparr>openai_calls := openai_calls w @ [query]\<rparr>)"

text \<open>\<^verbatim>\<open>response.choices[0].message.content\<close>: indexing an empty list raises.\<close>

definition first_choice :: "pystr list \<Rightarrow> exn + pystr" where
  "first_choice choices =
     (case choices of
        [] \<Rightarrow> Inl (IndexError (str ''list index out of range''))
      | content # _ \<Rightarrow> Inr content)"

text \<open>\<^verbatim>\<open>sheet.append_row(row)\<close>.\<close>

definition append_row :: "collab \<Rightarrow> pystr list \<Rightarrow> world \<Rightarrow> (exn + unit) \<times> world" where
  "append_row c row w =
     (let w' = w\<lparr>sheet_calls := sheet_calls w @ [row]\<rparr>
      in case sheet c (sheet_calls w) row of
           None \<Rightarrow> (Inr (), w')
         | Some e \<Rightarrow> (Inl e, w'))"

section \<open>Rate limiter (main.py, lines 30-43)\<close>

text \<open>
  \<^verbatim>\<open>user_last_ask = defaultdict(lambda: 0)\<close>: reading a key that is absent stores the
  default \<open>0\<close> under that key and returns it.
  The timestamps are the floats of \<^verbatim>\<open>datetime.now().timestamp()\<close>, taken here as reals.
\<close>

definition defaultdict_getitem :: "(user_id \<rightharpoonup> real) \<Rightarrow> user_id \<Rightarrow> real \<times> (user_id \<rightharpoonup> real)" where
  "defaultdict_getitem d k =
     (case d k of
        Some v \<Rightarrow> (v, d)
      | None \<Rightarrow> (0, d(k \<mapsto> 0)))"

definition ASK_INTERVAL :: real where
  "ASK_INTERVAL = 30"

definition too_quickly :: pystr where
  "too_quickly = str ''You're sending requests too quickly. Please wait a bit.''"

text \<open>
  The wrapper that \<^verbatim>\<open>rate_limited(func)\<close> returns. \<open>now\<close> is the clock reading of
  line 36, \<open>user_id\<close> is \<^verbatim>\<open>update.effective_user.id\<close> and \<open>args\<close> is
  \<^verbatim>\<open>context.args\<close>, which is all that the handlers read of their two parameters.
\<close>

definition rate_limited ::
  "collab \<Rightarrow> (user_id \<Rightarrow> pystr list \<Rightarrow> world \<Rightarrow> (exn + unit) \<times> world)
     \<Rightarrow> real \<Rightarrow> user_id \<Rightarrow> pystr list \<Rightarrow> world \<Rightarrow> (exn + unit) \<times> world" where
  "rate_limited c func now user_id args w =
     (case defaultdict_getitem (user_last_ask w) user_id of
        (last_ask, d) \<Rightarrow>
          if now - last_ask < ASK_INTERVAL
          then reply_text c too_quickly (w\<lparr>user_last_ask := d\<rparr>)
          else func user_id args (w\<lparr>user_last_ask := d(user_id \<mapsto> now)\<rparr>))"

section \<open>Bot commands (main.py, lines 51-101)\<close>

definition welcome_text :: pystr where
  "welcome_text = str ''Welcome to OPTIONSmagicAI'' @ [10, 10]
     @ str ''From Signal to Success'' @ [0x2014] @ str ''Automated.'' @ [10, 10]
     @ str ''Use /ask to analyze options or /alert to get today's picks.''"

definition start :: "collab \<Rightarrow> world \<Rightarrow> (exn + unit) \<times> world" where
  "start c w = reply_text c welcome_text w"

text \<open>\<^verbatim>\<open>sep.join(xs)\<close>.\<close>

fun join :: "pystr \<Rightarrow> pystr list \<Rightarrow> pystr" where
  "join sep [] = []"
| "join sep [x] = x"
| "join sep (x # y # ys) = x @ sep @ join sep (y # ys)"

definition usage_hint :: pystr where
  "usage_hint = str ''Please enter a query after /ask (e.g., /ask What are good BANKNIFTY options today?)''"

definition retry_later :: pystr where
  "retry_later = str ''Sorry, I couldn't reach OpenAI right now. Please try again later.''"

text \<open>The loop of lines 74-75: a reply that raises ends the loop and the handler.\<close>

fun send_parts :: "collab \<Rightarrow> pystr list \<Rightarrow> world \<Rightarrow> (exn + unit) \<times> world" where
  "send_parts c [] w = (Inr (), w)"
| "send_parts c (part # parts) w =
     (case reply_text c part w of
        (Inl e, w') \<Rightarrow> (Inl e, w')
      | (Inr _, w') \<Rightarrow> send_parts c parts w')"

text \<open>
  The function \<^verbatim>\<open>ask\<close> as written (lines 57-75), before the decorator is applied.
  The \<^verbatim>\<open>try\<close> block covers the call of the completion service and the reading of
  the first choice; \<^verbatim>\<open>split_message\<close> and the replies are outside it.
\<close>

definition ask_body :: "collab \<Rightarrow> user_id \<Rightarrow> pystr list \<Rightarrow> world \<Rightarrow> (exn + unit) \<times> world" where
  "ask_body c user_id args w =
     (let query = join (str '' '') args
      in if query = [] then reply_text c usage_hint w
         else
           (case ChatCompletion_create c query w of
              (response, w1) \<Rightarrow>
                (case (case response of Inl e \<Rightarrow> Inl e | Inr choices \<Rightarrow> first_choice choices) of
                   Inl e \<Rightarrow>
                     reply_text c retry_later
                       (logging_error (str ''OpenAI API error: '' @ exn_str e) w1)
                 | Inr answer_content \<Rightarrow>
                     (case split_message answer_content 4096 of
                        Inl e \<Rightarrow> (Inl e, w1)
                      | Inr parts \<Rightarrow> send_parts c parts w1))))"

text \<open>The name \<^verbatim>\<open>ask\<close> after line 56: the decorated function.\<close>

definition ask :: "collab \<Rightarrow> real \<Rightarrow> user_id \<Rightarrow> pystr list \<Rightarrow> world \<Rightarrow> (exn + unit) \<times> world" where
  "ask c = rate_limited c (ask_body c)"

definition data :: "pystr list list" where
  "data =
     [[str ''PAGEIND 51000 CE'', str ''Entry: 123.45'', str ''SL: 112'', str ''Target: 145'', str ''Sector: Auto''],
      [str ''ASTRAL 1600 CE'', str ''Entry: 98.70'', str ''SL: 87'', str ''Target: 125'', str ''Sector: Pipes''],
      [str ''DIVISLAB 4500 CE'', str ''Entry: 156.20'', str ''SL: 140'', str ''Target: 180'', str ''Sector: Pharma'']]"

text \<open>
  Line 87. Every row of \<open>data\<close> has five fields (lemma \<open>data_rows\<close> below), so the
  indices \<open>0..4\<close> are in range wherever \<open>format_trade\<close> and \<open>append_rows\<close> are used.
\<close>

definition format_trade :: "pystr list \<Rightarrow> pystr" where
  "format_trade trade =
     [0x2022] @ str '' '' @ trade ! 0 @ str '' ('' @ trade ! 4 @ str '')'' @ [10]
       @ str ''  '' @ trade ! 1 @ str '' | '' @ trade ! 2 @ str '' | '' @ trade ! 3 @ [10, 10]"

definition alert_message :: pystr where
  "alert_message =
     foldl (\<lambda>message trade. message @ format_trade trade)
       ([0x1F9E0] @ str '' *OPTIONSmagicAI 4PM Swing Breakout Alerts* '' @ [0x1F4A1, 10, 10])
       data
     @ str ''From Signal to Success'' @ [0x2014] @ str ''Automated.''"

definition alert_failed :: pystr where
  "alert_failed = str ''Failed to send alerts due to an internal error. Please try again later.''"

text \<open>The loop of lines 93-97, with its own \<^verbatim>\<open>try\<close> around each append.\<close>

fun append_rows :: "collab \<Rightarrow> pystr \<Rightarrow> pystr list list \<Rightarrow> world \<Rightarrow> world" where
  "append_rows c today [] w = w"
| "append_rows c today (row # rows) w =
     (case append_row c [today, row ! 0, row ! 1, row ! 2, row ! 3, row ! 4] w of
        (Inl e, w') \<Rightarrow>
          append_rows c today rows
            (logging_error (str ''Failed to log to Google Sheets: '' @ exn_str e) w')
      | (Inr _, w') \<Rightarrow> append_rows c today rows w')"

text \<open>
  \<open>today\<close> is \<^verbatim>\<open>datetime.now().strftime("%Y-%m-%d")\<close>. Inside the outer \<^verbatim>\<open>try\<close>
  only the reply of line 90 can raise: the data are constants and every append has
  its own handler.
\<close>

definition alert :: "collab \<Rightarrow> pystr \<Rightarrow> world \<Rightarrow> (exn + unit) \<times> world" where
  "alert c today w =
     (case reply_markdown c alert_message w of
        (Inr _, w1) \<Rightarrow> (Inr (), append_rows c today data w1)
      | (Inl e, w1) \<Rightarrow>
          reply_text c alert_failed
            (logging_error (str ''Alert handler failed: '' @ exn_str e) w1))"

section \<open>Start of the process (main.py, lines 16-27 and 104-119)\<close>

record config =
  TELEGRAM_TOKEN :: "pystr option"
  OPENAI_API_KEY :: "pystr option"
  SHEET_ID :: "pystr option"

text \<open>
  \<^verbatim>\<open>os.getenv\<close> gives \<^verbatim>\<open>None\<close> for a variable that is not set. Python's truth value
  of such a value: \<^verbatim>\<open>None\<close> and the empty string are false.
\<close>

definition truthy :: "pystr option \<Rightarrow> bool" where
  "truthy v = (case v of None \<Rightarrow> False | Some s \<Rightarrow> s \<noteq> [])"

definition check_credentials :: "config \<Rightarrow> exn + unit" where
  "check_credentials cfg =
     (let required_env = [TELEGRAM_TOKEN cfg, OPENAI_API_KEY cfg, SHEET_ID cfg]
      in if \<not> list_all truthy required_env
         then Inl (RuntimeError (str ''Missing one or more required environment variables. Please set TELEGRAM_TOKEN, OPENAI_API_KEY, and SHEET_ID.''))
         else Inr ())"

text \<open>
  The library calls made while the process starts, each a parameter that says
  whether the call raises: \<^verbatim>\<open>Bot(token=TELEGRAM_TOKEN)\<close> (line 23),
  \<^verbatim>\<open>gspread.service_account(filename="credentials.json")\<close> (line 26),
  \<^verbatim>\<open>gc.open_by_key(SHEET_ID)\<close> (line 27),
  \<^verbatim>\<open>ApplicationBuilder().token(TELEGRAM_TOKEN).build()\<close> (line 112) and
  \<^verbatim>\<open>app.run_polling()\<close> (line 117).
\<close>

record launcher =
  Bot :: "pystr option \<Rightarrow> exn option"
  service_account :: "exn option"
  open_by_key :: "pystr option \<Rightarrow> exn option"
  build :: "pystr option \<Rightarrow> exn option"
  run_polling :: "exn option"

text \<open>
  The observable steps of the start. \<open>Uncaught e\<close> is an exception that no handler
  catches: the interpreter prints the traceback and the process ends. \<open>RunPolling\<close> is
  the call of \<^verbatim>\<open>app.run_polling()\<close>, the only place where commands begin to be served.
\<close>

datatype startup_event =
    Uncaught exn
  | Build "pystr option"
  | AddHandler pystr
  | Print pystr
  | RunPolling
  | LogCritical pystr

text \<open>
  The statements at module level, lines 16-27. They run when the file is loaded,
  before the main block and outside its \<^verbatim>\<open>try\<close>; reading the environment and
  assigning \<^verbatim>\<open>openai.api_key\<close> do not raise. The result is the exception that ends
  them, if any.
\<close>

definition module_level :: "config \<Rightarrow> launcher \<Rightarrow> exn option" where
  "module_level cfg lib =
     (case Bot lib (TELEGRAM_TOKEN cfg) of
        Some e \<Rightarrow> Some e
      | None \<Rightarrow>
          (case service_account lib of
             Some e \<Rightarrow> Some e
           | None \<Rightarrow> open_by_key lib (SHEET_ID cfg)))"

definition bot_failed :: "exn \<Rightarrow> startup_event" where
  "bot_failed e = LogCritical (str ''Bot failed to start: '' @ exn_str e)"

text \<open>The main block, lines 109-119: everything in it is inside one \<^verbatim>\<open>try\<close>.\<close>

definition main_block :: "config \<Rightarrow> launcher \<Rightarrow> startup_event list" where
  "main_block cfg lib =
     (case check_credentials cfg of
        Inl e \<Rightarrow> [bot_failed e]
      | Inr _ \<Rightarrow>
          (case build lib (TELEGRAM_TOKEN cfg) of
             Some e \<Rightarrow> [Build (TELEGRAM_TOKEN cfg), bot_failed e]
           | None \<Rightarrow>
               [Build (TELEGRAM_TOKEN cfg),
                AddHandler (str ''start''), AddHandler (str ''ask''), AddHandler (str ''alert''),
                Print (str ''Bot is up and running.''),
                RunPolling]
               @ (case run_polling lib of Some e \<Rightarrow> [bot_failed e] | None \<Rightarrow> [])))"

text \<open>The file run as a script: the module level first, then the main block.\<close>

definition script :: "config \<Rightarrow> launcher \<Rightarrow> startup_event list" where
  "script cfg lib =
     (case module_level cfg lib of
        Some e \<Rightarrow> [Uncaught e]
      | None \<Rightarrow> main_block cfg lib)"

section \<open>A sequence of /ask commands\<close>

text \<open>
  The transport library delivers each \<^verbatim>\<open>/ask\<close> update to the decorated handler and
  goes on with the next update whether or not the handler raised. A call is the clock
  reading, the caller and the arguments; the result is the world after each call.
\<close>

fun ask_calls :: "collab \<Rightarrow> (real \<times> user_id \<times> pystr list) list \<Rightarrow> world \<Rightarrow> world list" where
  "ask_calls c [] w = []"
| "ask_calls c ((now, user_id, args) # calls) w =
     (let w' = snd (ask c now user_id args w) in w' # ask_calls c calls w')"

section \<open>Concrete worlds and collaborators\<close>

text \<open>
  A process that has just started, collaborators that never fail (the completion
  service echoes the query as its only choice), and collaborators of which the
  completion service always raises and the spreadsheet raises on its second append.
\<close>

definition fresh :: world where
  "fresh = \<lparr>user_last_ask = Map.empty, replies = [], openai_calls = [], sheet_calls = [], logged = []\<rparr>"

definition obliging :: collab where
  "obliging = \<lparr>transport = (\<lambda>_ _. None), completion = (\<lambda>_ query. Inr [query]), sheet = (\<lambda>_ _. None)\<rparr>"

definition flaky :: collab where
  "flaky = \<lparr>transport = (\<lambda>_ _. None),
             completion = (\<lambda>_ _. Inl (Upstream (str ''timed out''))),
             sheet = (\<lambda>calls _. if length calls = 1 then Some (Upstream (str ''quota exceeded'')) else None)\<rparr>"

text \<open>
  A transport library that refuses a token that is \<^verbatim>\<open>None\<close> or empty when the
  \<^verbatim>\<open>Bot\<close> is constructed, as python-telegram-bot does; every other call succeeds.
\<close>

definition telegram_like :: launcher where
  "telegram_like =
     \<lparr>Bot = (\<lambda>token. if truthy token then None
                     else Some (Upstream (str ''You must pass the token you received from https://t.me/Botfather!''))),
      service_account = None,
      open_by_key = (\<lambda>_. None),
      build = (\<lambda>_. None),
      run_polling = None\<rparr>"

section \<open>Properties of the splitter\<close>

lemma py_slice_window:
  assumes "0 \<le> i" and "0 < step"
  shows "py_slice xs i (i + step) = take (nat step) (drop (nat i) xs)"
proof (cases "i + step \<le> int (length xs)")
  case True
  with assms show ?thesis
    by (simp add: py_slice_def slice_bound_def Let_def min_def max_def)
next
  case False
  with assms have short: "length (drop (nat i) xs) \<le> nat step"
    by simp
  have "py_slice xs i (i + step) = take (nat (int (length xs) - min (int (length xs)) i)) (drop (nat (min (int (length xs)) i)) xs)"
    using assms False by (simp add: py_slice_def slice_bound_def Let_def min_def max_def)
  also have "\<dots> = drop (nat i) xs"
    by (cases "i \<le> int (length xs)") (simp_all add: min_def)
  also have "\<dots> = take (nat step) (drop (nat i) xs)"
    using short by simp
  finally show ?thesis .
qed

lemma chunks_concat:
  "0 < step \<Longrightarrow> 0 \<le> i \<Longrightarrow>
     concat (map (\<lambda>j. py_slice xs j (j + step)) (py_range_items i (int (length xs)) step))
       = drop (nat i) xs"
proof (induction i "int (length xs)" step rule: py_range_items.induct)
  case (1 i step)
  show ?case
  proof (cases "i < int (length xs)")
    case True
    with "1.prems" have ih:
      "concat (map (\<lambda>j. py_slice xs j (j + step)) (py_range_items (i + step) (int (length xs)) step))
         = drop (nat (i + step)) xs"
      by (intro "1.hyps") auto
    have "nat (i + step) = nat step + nat i"
      using "1.prems" by (simp add: nat_add_distrib)
    then have "take (nat step) (drop (nat i) xs) @ drop (nat (i + step)) xs = drop (nat i) xs"
      by (metis append_take_drop_id drop_drop)
    with True "1.prems" ih show ?thesis
      by (subst py_range_items.simps) (simp add: py_slice_window)
  next
    case False
    with "1.prems" show ?thesis
      by (subst py_range_items.simps) simp
  qed
qed

lemma range_items_bounds:
  "0 < step \<Longrightarrow> j \<in> set (py_range_items i stop step) \<Longrightarrow> i \<le> j \<and> j < stop"
proof (induction i stop step rule: py_range_items.induct)
  case (1 i stop step)
  from "1.prems"(2) have mem: "i < stop \<and> (j = i \<or> j \<in> set (py_range_items (i + step) stop step))"
    using "1.prems"(1) by (subst (asm) py_range_items.simps) (auto split: if_splits)
  show ?case
  proof (cases "j = i")
    case True
    with mem show ?thesis by simp
  next
    case False
    with mem have "j \<in> set (py_range_items (i + step) stop step)" by simp
    with mem "1.prems"(1) have "i + step \<le> j \<and> j < stop"
      by (intro "1.IH") auto
    with "1.prems"(1) show ?thesis by simp
  qed
qed

lemma range_items_length:
  "0 < step \<Longrightarrow> int (length (py_range_items i stop step)) = max 0 (- ((i - stop) div step))"
proof (induction i stop step rule: py_range_items.induct)
  case (1 i stop step)
  show ?case
  proof (cases "i < stop")
    case True
    with "1.prems" have ih:
      "int (length (py_range_items (i + step) stop step)) = max 0 (- ((i + step - stop) div step))"
      by (intro "1.IH") auto
    have "i + step - stop = (i - stop) + step" by simp
    then have shift: "(i + step - stop) div step = (i - stop) div step + 1"
      using "1.prems" by (simp only: div_add_self2 [of step "i - stop"])
    have neg: "(i - stop) div step < 0"
      using True "1.prems" by (simp add: div_neg_pos_less0)
    from True "1.prems" ih shift neg show ?thesis
      by (subst py_range_items.simps) (simp add: max_def)
  next
    case False
    then have "0 \<le> (i - stop) div step"
      using "1.prems" by (simp add: pos_imp_zdiv_nonneg_iff)
    with False "1.prems" show ?thesis
      by (subst py_range_items.simps) (simp add: max_def)
  qed
qed

lemma chunks_full_but_last:
  "0 < step \<Longrightarrow> 0 \<le> i \<Longrightarrow>
     c \<in> set (butlast (map (\<lambda>j. py_slice xs j (j + step)) (py_range_items i (int (length xs)) step)))
     \<Longrightarrow> int (length c) = step"
proof (induction i "int (length xs)" step rule: py_range_items.induct)
  case (1 i step)
  let ?rest = "py_range_items (i + step) (int (length xs)) step"
  let ?f = "\<lambda>j. py_slice xs j (j + step)"
  have lt: "i < int (length xs)"
  proof (rule ccontr)
    assume "\<not> i < int (length xs)"
    with "1.prems"(1) have "py_range_items i (int (length xs)) step = []"
      by (subst py_range_items.simps) simp
    with "1.prems"(3) show False by simp
  qed
  with "1.prems"(1) have unfold: "py_range_items i (int (length xs)) step = i # ?rest"
    by (subst py_range_items.simps) simp
  show ?case
  proof (cases "?rest = []")
    case True
    with unfold "1.prems"(3) show ?thesis by simp
  next
    case False
    then obtain k where "k \<in> set ?rest" by (cases ?rest) auto
    with "1.prems"(1) have room: "i + step < int (length xs)"
      using range_items_bounds [of step k "i + step" "int (length xs)"] by simp
    from unfold False "1.prems"(3)
    have "c = ?f i \<or> c \<in> set (butlast (map ?f ?rest))"
      by (simp add: map_butlast [symmetric])
    then show ?thesis
    proof
      assume "c = ?f i"
      with "1.prems" room show ?thesis
        by (simp add: py_slice_window)
    next
      assume "c \<in> set (butlast (map ?f ?rest))"
      with lt "1.prems" show ?thesis
        by (intro "1.hyps") auto
    qed
  qed
qed

lemma chunk_nonempty:
  assumes "0 < step" and "0 \<le> i"
    and "c \<in> set (map (\<lambda>j. py_slice xs j (j + step)) (py_range_items i (int (length xs)) step))"
  shows "c \<noteq> []"
proof -
  from assms(3) obtain j where j: "j \<in> set (py_range_items i (int (length xs)) step)"
    and c: "c = py_slice xs j (j + step)" by auto
  from range_items_bounds [OF assms(1) j] assms(2) have "0 \<le> j" "j < int (length xs)" by auto
  with assms(1) c show ?thesis
    by (simp add: py_slice_window)
qed

lemma chunk_short:
  assumes "0 < step" and "0 \<le> i"
    and "c \<in> set (map (\<lambda>j. py_slice xs j (j + step)) (py_range_items i (int (length xs)) step))"
  shows "int (length c) \<le> step"
proof -
  from assms(3) obtain j where j: "j \<in> set (py_range_items i (int (length xs)) step)"
    and c: "c = py_slice xs j (j + step)" by auto
  from range_items_bounds [OF assms(1) j] assms(2) have "0 \<le> j" by auto
  with assms(1) c show ?thesis
    by (simp add: py_slice_window)
qed

text \<open>
  Claim C3. For every string \<open>s\<close> and every positive \<open>m\<close>, \<open>split_message s m\<close>
  returns chunks whose concatenation, in order, is exactly \<open>s\<close>, and every chunk has
  length at most \<open>m\<close>.
\<close>
theorem split_message_concat:
  assumes "0 < m"
  shows "\<exists>chunks. split_message s m = Inr chunks \<and> concat chunks = s
           \<and> (\<forall>c\<in>set chunks. int (length c) \<le> m)"
proof -
  let ?chunks = "map (\<lambda>i. py_slice s i (i + m)) (py_range_items 0 (int (length s)) m)"
  have "split_message s m = Inr ?chunks"
    using assms by (simp add: split_message_def py_range_def)
  moreover have "concat ?chunks = s"
    using chunks_concat [of m 0 s] assms by simp
  moreover have "\<forall>c\<in>set ?chunks. int (length c) \<le> m"
    using chunk_short [where step = m and i = 0 and xs = s] assms by blast
  ultimately show ?thesis by blast
qed

theorem split_message_concat_witness:
  "(0::int) < 2 \<and> (\<exists>chunks. split_message (str ''abcde'') 2 = Inr chunks \<and> concat chunks = str ''abcde''
           \<and> (\<forall>c\<in>set chunks. int (length c) \<le> 2))"
  using split_message_concat [of 2 "str ''abcde''"] by simp

text \<open>
  Claim C7 says that every \<open>max_len \<le> 0\<close> makes the splitter fail. With \<open>max_len = -1\<close>
  the range is empty and the splitter returns the empty list.
\<close>
theorem split_message_negative_counterexample:
  "(- 1 :: int) \<le> 0 \<and> split_message (str ''abc'') (- 1) = Inr []"
  by (simp add: split_message_def py_range_def py_range_items.simps)

text \<open>
  Claim C7, as the code has it. The splitter raises exactly when \<open>max_len = 0\<close>, and the
  error is the ValueError of \<^verbatim>\<open>range\<close>; for a negative \<open>max_len\<close> it returns the empty
  list without an error; for a positive \<open>max_len\<close> it never fails.
\<close>
theorem split_message_failure:
  "(m = 0 \<longrightarrow> split_message text m = Inl (ValueError (str ''range() arg 3 must not be zero'')))
   \<and> (m < 0 \<longrightarrow> split_message text m = Inr [])
   \<and> (0 < m \<longrightarrow> (\<exists>chunks. split_message text m = Inr chunks))"
  by (simp add: split_message_def py_range_def py_range_items.simps)

theorem split_message_failure_witness:
  "split_message (str ''abc'') 0 = Inl (ValueError (str ''range() arg 3 must not be zero''))
   \<and> split_message (str ''abc'') (- 4) = Inr []
   \<and> (\<exists>chunks. split_message (str ''abc'') 4 = Inr chunks)"
  using split_message_failure [of 0 "str ''abc''"] split_message_failure [of "- 4" "str ''abc''"]
    split_message_failure [of 4 "str ''abc''"]
  by simp

text \<open>
  Claim C10. For every \<open>max_len > 0\<close>: the empty string gives the empty sequence, not
  one empty chunk; a non-empty text gives exactly \<open>\<lceil>len(text) / max_len\<rceil>\<close> chunks, every
  chunk but possibly the last has length exactly \<open>max_len\<close>, and no chunk is empty.
\<close>
theorem split_message_chunks:
  assumes "0 < m"
  shows "split_message ([] :: 'a list) m = Inr []
    \<and> ((text :: 'a list) \<noteq> [] \<longrightarrow>
         (\<exists>chunks. split_message text m = Inr chunks
            \<and> int (length chunks) = \<lceil>real (length text) / real_of_int m\<rceil>
            \<and> (\<forall>c\<in>set (butlast chunks). int (length c) = m)
            \<and> (\<forall>c\<in>set chunks. c \<noteq> [])))"
proof -
  let ?chunks = "map (\<lambda>i. py_slice text i (i + m)) (py_range_items 0 (int (length text)) m)"
  have empty: "split_message ([] :: 'a list) m = Inr []"
    using assms by (simp add: split_message_def py_range_def py_range_items.simps)
  have run: "split_message text m = Inr ?chunks"
    using assms by (simp add: split_message_def py_range_def)
  have "0 \<le> - (- int (length text) div m)"
    using assms div_nonpos_pos_le0 [of "- int (length text)" m] by simp
  moreover have "\<lceil>real_of_int (int (length text)) / real_of_int m\<rceil> = - (- int (length text) div m)"
    by (rule ceiling_divide_eq_div)
  ultimately have count: "int (length ?chunks) = \<lceil>real (length text) / real_of_int m\<rceil>"
    using range_items_length [of m 0 "int (length text)"] assms
    by simp
  have whole: "\<forall>c\<in>set (butlast ?chunks). int (length c) = m"
    using chunks_full_but_last [where step = m and i = 0 and xs = "text"] assms by blast
  have nonempty: "\<forall>c\<in>set ?chunks. c \<noteq> []"
    using chunk_nonempty [where step = m and i = 0 and xs = "text"] assms by blast
  from empty run count whole nonempty show ?thesis by blast
qed

theorem split_message_chunks_witness:
  "(0::int) < 2 \<and> split_message ([] :: nat list) 2 = Inr []
    \<and> str ''abcde'' \<noteq> [] \<and>
         (\<exists>chunks. split_message (str ''abcde'') 2 = Inr chunks
            \<and> int (length chunks) = \<lceil>real (length (str ''abcde'')) / real_of_int 2\<rceil>
            \<and> (\<forall>c\<in>set (butlast chunks). int (length c) = 2)
            \<and> (\<forall>c\<in>set chunks. c \<noteq> []))"
  using split_message_chunks [of 2 "str ''abcde''"] by (simp add: str_def)

section \<open>Properties of the rate limiter and of the handlers\<close>

lemma reply_text_world:
  "snd (reply_text c s w) = w\<lparr>replies := replies w @ [Text s]\<rparr>"
  by (simp add: reply_text_def Let_def split: option.splits)

lemma reply_text_outcome:
  "fst (reply_text c s w) = (case transport c (replies w) (Text s) of None \<Rightarrow> Inr () | Some e \<Rightarrow> Inl e)"
  by (simp add: reply_text_def Let_def split: option.splits)

lemma reply_markdown_world:
  "snd (reply_markdown c s w) = w\<lparr>replies := replies w @ [Markdown s]\<rparr>"
  by (simp add: reply_markdown_def Let_def split: option.splits)

lemma send_parts_table:
  "user_last_ask (snd (send_parts c parts w)) = user_last_ask w"
proof (induction parts arbitrary: w)
  case Nil
  show ?case by simp
next
  case (Cons part parts)
  have "snd (reply_text c part w) = w\<lparr>replies := replies w @ [Text part]\<rparr>"
    by (rule reply_text_world)
  then show ?case
    using Cons.IH [of "w\<lparr>replies := replies w @ [Text part]\<rparr>"]
    by (cases "reply_text c part w") (auto split: sum.splits)
qed

lemma ask_body_table:
  "user_last_ask (snd (ask_body c u args w)) = user_last_ask w"
  by (simp add: ask_body_def Let_def ChatCompletion_create_def logging_error_def
      reply_text_world send_parts_table split: sum.splits prod.splits)

text \<open>
  The success path on a concrete input: an admitted question is sent to the
  completion service once, and its answer, shorter than 4096, comes back as one reply.
\<close>

lemma ask_answers_example:
  "ask obliging 1700000000 7 [str ''hi'', str ''there''] fresh
     = (Inr (), fresh\<lparr>user_last_ask := [7 \<mapsto> 1700000000],
                       openai_calls := [str ''hi there''],
                       replies := [Text (str ''hi there'')]\<rparr>)"
  by (simp add: ask_def rate_limited_def defaultdict_getitem_def ASK_INTERVAL_def fresh_def
      obliging_def ask_body_def ChatCompletion_create_def first_choice_def str_def
      split_message_def py_range_def py_range_items.simps py_slice_def slice_bound_def
      reply_text_def Let_def)

text \<open>
  Claim C1. Let \<open>t\<close> be the timestamp stored for user \<open>u\<close>, in any state of the table.
  A gated call at time \<open>now\<close> is admitted if and only if \<open>now - t \<ge> 30\<close>. When it is
  admitted the wrapped handler runs in the world where \<open>now\<close> is already stored for
  \<open>u\<close>. When it is denied the handler does not run, the only effect is the
  rate-limit reply, and the table is unchanged.
\<close>
theorem rate_limited_gate:
  assumes "user_last_ask w u = Some t"
  shows "(30 \<le> now - t \<longrightarrow>
            rate_limited c func now u args w
              = func u args (w\<lparr>user_last_ask := (user_last_ask w)(u \<mapsto> now)\<rparr>))
       \<and> (\<not> 30 \<le> now - t \<longrightarrow>
            rate_limited c func now u args w = reply_text c too_quickly w
            \<and> user_last_ask (snd (rate_limited c func now u args w)) = user_last_ask w)"
  using assms
  by (simp add: rate_limited_def defaultdict_getitem_def ASK_INTERVAL_def reply_text_world)


theorem rate_limited_gate_witness:
  "user_last_ask (fresh\<lparr>user_last_ask := [7 \<mapsto> 100]\<rparr>) 7 = Some 100
   \<and> (30::real) \<le> 130 - 100
   \<and> rate_limited obliging (ask_body obliging) 130 7 [] (fresh\<lparr>user_last_ask := [7 \<mapsto> 100]\<rparr>)
        = ask_body obliging 7 [] (fresh\<lparr>user_last_ask := [7 \<mapsto> 130]\<rparr>)
   \<and> \<not> (30::real) \<le> 129 - 100
   \<and> rate_limited obliging (ask_body obliging) 129 7 [] (fresh\<lparr>user_last_ask := [7 \<mapsto> 100]\<rparr>)
        = reply_text obliging too_quickly (fresh\<lparr>user_last_ask := [7 \<mapsto> 100]\<rparr>)
   \<and> user_last_ask (snd (rate_limited obliging (ask_body obliging) 129 7 []
          (fresh\<lparr>user_last_ask := [7 \<mapsto> 100]\<rparr>))) 7 = Some 100"
  using rate_limited_gate [of "fresh\<lparr>user_last_ask := [7 \<mapsto> 100]\<rparr>" 7 100 130 obliging "ask_body obliging" "[]"]
    rate_limited_gate [of "fresh\<lparr>user_last_ask := [7 \<mapsto> 100]\<rparr>" 7 100 129 obliging "ask_body obliging" "[]"]
  by (simp add: fresh_def reply_text_world)

text \<open>
  Claim C2 says that the first gated call of a user without an entry is admitted at
  every instant. In a fresh process, user 7 asks a non-empty question at \<open>now = 10\<close>:
  the absent entry reads as \<open>0\<close>, \<open>10 - 0 < 30\<close>, and the call is denied. The only
  reply is the rate-limit notice, the completion service is not called, and the table
  now holds \<open>0\<close> for the user.
\<close>
theorem first_call_denied_counterexample:
  "user_last_ask fresh 7 = None
   \<and> ask obliging 10 7 [str ''hello''] fresh
        = (Inr (), fresh\<lparr>user_last_ask := [7 \<mapsto> 0], replies := [Text too_quickly]\<rparr>)"
  by (simp add: fresh_def obliging_def ask_def rate_limited_def defaultdict_getitem_def
      ASK_INTERVAL_def reply_text_def)

text \<open>
  Claim C2, as the code has it. An absent entry is read as the timestamp \<open>0\<close>. The
  first gated call of a user without an entry is admitted for every \<open>now \<ge> 30\<close>, and
  then stores \<open>now\<close> before the handler runs; for \<open>now < 30\<close> it is denied and \<open>0\<close>
  is stored for the user.
\<close>
theorem first_call_gate:
  assumes "user_last_ask w u = None"
  shows "(30 \<le> now \<longrightarrow>
            rate_limited c func now u args w
              = func u args (w\<lparr>user_last_ask := (user_last_ask w)(u \<mapsto> now)\<rparr>))
       \<and> (now < 30 \<longrightarrow>
            rate_limited c func now u args w
              = reply_text c too_quickly (w\<lparr>user_last_ask := (user_last_ask w)(u \<mapsto> 0)\<rparr>))"
  using assms
  by (simp add: rate_limited_def defaultdict_getitem_def ASK_INTERVAL_def)

theorem first_call_gate_witness:
  "user_last_ask fresh 7 = None
   \<and> (30::real) \<le> 1700000000
   \<and> rate_limited obliging (ask_body obliging) 1700000000 7 [] fresh
        = ask_body obliging 7 [] (fresh\<lparr>user_last_ask := [7 \<mapsto> 1700000000]\<rparr>)
   \<and> (29::real) < 30
   \<and> rate_limited obliging (ask_body obliging) 29 7 [] fresh
        = reply_text obliging too_quickly (fresh\<lparr>user_last_ask := [7 \<mapsto> 0]\<rparr>)"
  using first_call_gate [of fresh 7 1700000000 obliging "ask_body obliging" "[]"]
    first_call_gate [of fresh 7 29 obliging "ask_body obliging" "[]"]
  by (simp add: fresh_def)

text \<open>
  Claim C4 says that \<^verbatim>\<open>/ask\<close> with empty arguments sends a usage-hint reply. User 7
  was admitted at time 100 and sends an empty \<^verbatim>\<open>/ask\<close> at time 110: the gate denies
  it, the only reply is the rate-limit notice, and no usage hint is sent.
\<close>

theorem ask_empty_denied_counterexample:
  "join (str '' '') [] = []
   \<and> ask obliging 110 7 [] (fresh\<lparr>user_last_ask := [7 \<mapsto> 100]\<rparr>)
        = (Inr (), fresh\<lparr>user_last_ask := [7 \<mapsto> 100], replies := [Text too_quickly]\<rparr>)
   \<and> Text usage_hint \<notin> set [Text too_quickly]"
  by (simp add: fresh_def obliging_def ask_def rate_limited_def defaultdict_getitem_def
      ASK_INTERVAL_def reply_text_def too_quickly_def usage_hint_def str_def)

text \<open>
  Claim C4, as the code has it. When the joined arguments are empty, the completion
  service is never called, neither by the handler as written nor by the decorated
  handler, admitted or denied. The gate runs before the check of the arguments: if it
  admits the call, \<open>now\<close> is stored for the caller and the one reply is the usage
  hint; if it denies the call, the one reply is the rate-limit notice and no usage
  hint is sent.
\<close>

theorem ask_empty_arguments:
  assumes "join (str '' '') args = []"
  shows "ask_body c u args w = reply_text c usage_hint w
       \<and> openai_calls (snd (ask_body c u args w)) = openai_calls w
       \<and> replies (snd (ask_body c u args w)) = replies w @ [Text usage_hint]
       \<and> openai_calls (snd (ask c now u args w)) = openai_calls w
       \<and> (30 \<le> now - (case user_last_ask w u of None \<Rightarrow> 0 | Some t \<Rightarrow> t) \<longrightarrow>
            ask c now u args w
              = reply_text c usage_hint (w\<lparr>user_last_ask := (user_last_ask w)(u \<mapsto> now)\<rparr>)
            \<and> user_last_ask (snd (ask c now u args w)) u = Some now
            \<and> replies (snd (ask c now u args w)) = replies w @ [Text usage_hint])
       \<and> (now - (case user_last_ask w u of None \<Rightarrow> 0 | Some t \<Rightarrow> t) < 30 \<longrightarrow>
            replies (snd (ask c now u args w)) = replies w @ [Text too_quickly]
            \<and> user_last_ask (snd (ask c now u args w)) u
                 = Some (case user_last_ask w u of None \<Rightarrow> 0 | Some t \<Rightarrow> t))"
  using assms
  by (simp add: ask_def ask_body_def rate_limited_def defaultdict_getitem_def ASK_INTERVAL_def
      reply_text_world split: option.splits)

theorem ask_empty_arguments_witness:
  "join (str '' '') [] = []
   \<and> ask_body obliging 7 [] fresh = reply_text obliging usage_hint fresh
   \<and> openai_calls (snd (ask obliging 1700000000 7 [] fresh)) = []
   \<and> (30::real) \<le> 1700000000 - (case user_last_ask fresh 7 of None \<Rightarrow> 0 | Some t \<Rightarrow> t)
   \<and> user_last_ask (snd (ask obliging 1700000000 7 [] fresh)) 7 = Some 1700000000
   \<and> replies (snd (ask obliging 1700000000 7 [] fresh)) = [Text usage_hint]
   \<and> (110::real) - (case user_last_ask (fresh\<lparr>user_last_ask := [7 \<mapsto> 100]\<rparr>) 7 of None \<Rightarrow> 0 | Some t \<Rightarrow> t) < 30
   \<and> replies (snd (ask obliging 110 7 [] (fresh\<lparr>user_last_ask := [7 \<mapsto> 100]\<rparr>))) = [Text too_quickly]
   \<and> user_last_ask (snd (ask obliging 110 7 [] (fresh\<lparr>user_last_ask := [7 \<mapsto> 100]\<rparr>))) 7 = Some 100"
  using ask_empty_arguments [of "[]" obliging 7 fresh 1700000000]
    ask_empty_arguments [of "[]" obliging 7 "fresh\<lparr>user_last_ask := [7 \<mapsto> 100]\<rparr>" 110]
  by (simp add: fresh_def reply_text_world)

text \<open>
  Claim C5. For a non-empty query, when the call of the completion service raises
  \<open>e\<close>, the handler sends exactly one reply, the fixed retry-later text, whatever
  \<open>e\<close> is; the error goes to the log only. \<open>e\<close> never leaves the handler: the
  handler returns normally unless sending that reply itself raises.
\<close>
theorem ask_completion_failure:
  assumes "join (str '' '') args \<noteq> []"
    and "completion c (openai_calls w) (join (str '' '') args) = Inl e"
  shows "replies (snd (ask_body c u args w)) = replies w @ [Text retry_later]
       \<and> fst (ask_body c u args w)
            = (case transport c (replies w) (Text retry_later) of None \<Rightarrow> Inr () | Some e' \<Rightarrow> Inl e')
       \<and> openai_calls (snd (ask_body c u args w)) = openai_calls w @ [join (str '' '') args]
       \<and> logged (snd (ask_body c u args w))
            = logged w @ [(ERROR, str ''OpenAI API error: '' @ exn_str e)]"
  using assms
  by (simp add: ask_body_def Let_def ChatCompletion_create_def logging_error_def
      reply_text_world reply_text_outcome)

theorem ask_completion_failure_witness:
  "join (str '' '') [str ''What'', str ''is'', str ''BANKNIFTY''] \<noteq> []
   \<and> completion flaky (openai_calls fresh) (join (str '' '') [str ''What'', str ''is'', str ''BANKNIFTY''])
        = Inl (Upstream (str ''timed out''))
   \<and> replies (snd (ask_body flaky 7 [str ''What'', str ''is'', str ''BANKNIFTY''] fresh)) = [Text retry_later]
   \<and> fst (ask_body flaky 7 [str ''What'', str ''is'', str ''BANKNIFTY''] fresh) = Inr ()
   \<and> openai_calls (snd (ask_body flaky 7 [str ''What'', str ''is'', str ''BANKNIFTY''] fresh))
        = [str ''What is BANKNIFTY'']"
  using ask_completion_failure [of "[str ''What'', str ''is'', str ''BANKNIFTY'']" flaky fresh
      "Upstream (str ''timed out'')" 7]
  by (simp add: fresh_def flaky_def str_def)

lemma data_rows: "\<forall>row\<in>set data. length row = 5"
  by (simp add: data_def)

lemma append_row_world:
  "snd (append_row c row w) = w\<lparr>sheet_calls := sheet_calls w @ [row]\<rparr>"
  by (simp add: append_row_def Let_def split: option.splits)

lemma append_rows_calls:
  "sheet_calls (append_rows c today rows w)
     = sheet_calls w @ map (\<lambda>row. [today, row ! 0, row ! 1, row ! 2, row ! 3, row ! 4]) rows"
proof (induction rows arbitrary: w)
  case Nil
  show ?case by simp
next
  case (Cons row rows)
  let ?r = "[today, row ! 0, row ! 1, row ! 2, row ! 3, row ! 4]"
  have step: "snd (append_row c ?r w) = w\<lparr>sheet_calls := sheet_calls w @ [?r]\<rparr>"
    by (rule append_row_world)
  show ?case
  proof (cases "append_row c ?r w")
    case (Pair r w')
    with step have w': "w' = w\<lparr>sheet_calls := sheet_calls w @ [?r]\<rparr>" by simp
    show ?thesis
    proof (cases r)
      case (Inl e)
      with Pair w' show ?thesis
        using Cons.IH [of "logging_error (str ''Failed to log to Google Sheets: '' @ exn_str e) w'"]
        by (simp add: logging_error_def)
    next
      case (Inr x)
      with Pair w' show ?thesis
        using Cons.IH [of w'] by simp
    qed
  qed
qed

lemma append_rows_replies:
  "replies (append_rows c today rows w) = replies w"
proof (induction rows arbitrary: w)
  case Nil
  show ?case by simp
next
  case (Cons row rows)
  let ?r = "[today, row ! 0, row ! 1, row ! 2, row ! 3, row ! 4]"
  have step: "snd (append_row c ?r w) = w\<lparr>sheet_calls := sheet_calls w @ [?r]\<rparr>"
    by (rule append_row_world)
  show ?case
  proof (cases "append_row c ?r w")
    case (Pair r w')
    with step have w': "w' = w\<lparr>sheet_calls := sheet_calls w @ [?r]\<rparr>" by simp
    show ?thesis
    proof (cases r)
      case (Inl e)
      with Pair w' show ?thesis
        using Cons.IH [of "logging_error (str ''Failed to log to Google Sheets: '' @ exn_str e) w'"]
        by (simp add: logging_error_def)
    next
      case (Inr x)
      with Pair w' show ?thesis
        using Cons.IH [of w'] by simp
    qed
  qed
qed

lemma data_rows_logged:
  "map (\<lambda>row. [today, row ! 0, row ! 1, row ! 2, row ! 3, row ! 4]) data = map ((#) today) data"
  by (simp add: data_def)

text \<open>
  Claim C6. When the transport accepts the alert message, then whatever the
  spreadsheet does on each append (\<open>sheet c\<close> is arbitrary): the alert message is the
  only reply, the three rows are each appended once, in order, and the handler
  returns normally, so that no failure reply is sent.
\<close>
theorem alert_appends_every_row:
  assumes "transport c (replies w) (Markdown alert_message) = None"
  shows "fst (alert c today w) = Inr ()
       \<and> replies (snd (alert c today w)) = replies w @ [Markdown alert_message]
       \<and> sheet_calls (snd (alert c today w)) = sheet_calls w @ map ((#) today) data
       \<and> length (sheet_calls (snd (alert c today w))) = length (sheet_calls w) + 3"
proof -
  have run: "alert c today w
      = (Inr (), append_rows c today data (w\<lparr>replies := replies w @ [Markdown alert_message]\<rparr>))"
    using assms by (simp add: alert_def reply_markdown_def Let_def)
  have calls: "sheet_calls (append_rows c today data w') = sheet_calls w' @ map ((#) today) data" for w'
    by (simp only: append_rows_calls data_rows_logged)
  have "length data = 3" by (simp add: data_def)
  with run calls show ?thesis
    by (simp add: append_rows_replies)
qed

theorem alert_appends_every_row_witness:
  "transport flaky (replies fresh) (Markdown alert_message) = None
   \<and> fst (alert flaky (str ''2024-05-01'') fresh) = Inr ()
   \<and> replies (snd (alert flaky (str ''2024-05-01'') fresh)) = [Markdown alert_message]
   \<and> sheet_calls (snd (alert flaky (str ''2024-05-01'') fresh)) = map ((#) (str ''2024-05-01'')) data
   \<and> length (sheet_calls (snd (alert flaky (str ''2024-05-01'') fresh))) = 3
   \<and> logged (snd (alert flaky (str ''2024-05-01'') fresh))
        = [(ERROR, str ''Failed to log to Google Sheets: quota exceeded'')]"
proof -
  have failed: "logged (snd (alert flaky (str ''2024-05-01'') fresh))
        = [(ERROR, str ''Failed to log to Google Sheets: quota exceeded'')]"
    by (simp add: alert_def reply_markdown_def append_row_def logging_error_def data_def
        fresh_def flaky_def Let_def str_def)
  show ?thesis
    using alert_appends_every_row [of flaky fresh "str ''2024-05-01''"] failed
    by (simp add: fresh_def flaky_def data_def)
qed

text \<open>
  The function \<open>check_credentials\<close> on its own raises exactly when one of the three
  required values is unset or the empty string.
\<close>

lemma check_credentials_raises:
  "(\<exists>e. check_credentials cfg = Inl e)
     \<longleftrightarrow> (\<exists>v\<in>{TELEGRAM_TOKEN cfg, OPENAI_API_KEY cfg, SHEET_ID cfg}. v = None \<or> v = Some [])"
proof -
  have falsy: "\<not> truthy v \<longleftrightarrow> v = None \<or> v = Some []" for v
    by (simp add: truthy_def split: option.splits)
  have "(\<exists>e. check_credentials cfg = Inl e)
      \<longleftrightarrow> \<not> truthy (TELEGRAM_TOKEN cfg) \<or> \<not> truthy (OPENAI_API_KEY cfg) \<or> \<not> truthy (SHEET_ID cfg)"
    by (simp add: check_credentials_def Let_def)
  with falsy show ?thesis
    by simp
qed

text \<open>
  Whatever the libraries do, a process with a required value missing never starts
  polling: either the module level ends it, or the check raises inside the main block.
\<close>

lemma missing_never_polls:
  assumes "\<exists>v\<in>{TELEGRAM_TOKEN cfg, OPENAI_API_KEY cfg, SHEET_ID cfg}. v = None \<or> v = Some []"
  shows "RunPolling \<notin> set (script cfg lib)"
proof -
  from assms obtain e where "check_credentials cfg = Inl e"
    using check_credentials_raises [of cfg] by blast
  then have "main_block cfg lib = [bot_failed e]"
    by (simp add: main_block_def)
  then show ?thesis
    by (simp add: script_def bot_failed_def split: option.splits)
qed

lemma check_reached_logs:
  assumes "module_level cfg lib = None" and "check_credentials cfg = Inl e"
  shows "script cfg lib = [bot_failed e]"
  using assms by (simp add: script_def main_block_def)

lemma polling_starts:
  "RunPolling \<in> set (script \<lparr>TELEGRAM_TOKEN = Some (str ''t''), OPENAI_API_KEY = Some (str ''k''), SHEET_ID = Some (str ''s'')\<rparr> telegram_like)"
  by (simp add: script_def module_level_def main_block_def check_credentials_def truthy_def
      telegram_like_def str_def)

text \<open>
  Claim C9. The claim has the credential check raise the fatal error whenever a
  required value is missing. When constructing the \<^verbatim>\<open>Bot\<close> at line 23 raises, which
  it does for a missing token, the process ends there with that exception uncaught:
  \<open>check_credentials\<close> is not reached, its error is neither raised nor logged, and
  polling is not started.
\<close>

theorem token_failure_preempts_check:
  assumes "Bot lib (TELEGRAM_TOKEN cfg) = Some e"
  shows "script cfg lib = [Uncaught e]
       \<and> (\<forall>e'. bot_failed e' \<notin> set (script cfg lib))
       \<and> RunPolling \<notin> set (script cfg lib)"
  using assms by (simp add: script_def module_level_def bot_failed_def)

theorem token_failure_preempts_check_witness:
  "Bot telegram_like (TELEGRAM_TOKEN \<lparr>TELEGRAM_TOKEN = None, OPENAI_API_KEY = Some (str ''k''), SHEET_ID = Some (str ''s'')\<rparr>)
     = Some (Upstream (str ''You must pass the token you received from https://t.me/Botfather!''))
   \<and> check_credentials \<lparr>TELEGRAM_TOKEN = None, OPENAI_API_KEY = Some (str ''k''), SHEET_ID = Some (str ''s'')\<rparr>
     = Inl (RuntimeError (str ''Missing one or more required environment variables. Please set TELEGRAM_TOKEN, OPENAI_API_KEY, and SHEET_ID.''))
   \<and> script \<lparr>TELEGRAM_TOKEN = None, OPENAI_API_KEY = Some (str ''k''), SHEET_ID = Some (str ''s'')\<rparr> telegram_like
     = [Uncaught (Upstream (str ''You must pass the token you received from https://t.me/Botfather!''))]"
  using token_failure_preempts_check [of telegram_like
      "\<lparr>TELEGRAM_TOKEN = None, OPENAI_API_KEY = Some (str ''k''), SHEET_ID = Some (str ''s'')\<rparr>"
      "Upstream (str ''You must pass the token you received from https://t.me/Botfather!'')"]
  by (simp add: telegram_like_def truthy_def check_credentials_def)

lemma ask_entry_grows:
  assumes "user_last_ask w u = Some t"
  shows "\<exists>t'. user_last_ask (snd (ask c now v args w)) u = Some t' \<and> t \<le> t'"
proof (cases "v = u")
  case True
  with assms show ?thesis
    by (simp add: ask_def rate_limited_def defaultdict_getitem_def ASK_INTERVAL_def
        reply_text_world ask_body_table)
next
  case False
  with assms show ?thesis
    by (simp add: ask_def rate_limited_def defaultdict_getitem_def ASK_INTERVAL_def
        reply_text_world ask_body_table split: option.splits)
qed

lemma ask_calls_above:
  "user_last_ask w u = Some t \<Longrightarrow>
     \<forall>x\<in>set (List.map_filter (\<lambda>w'. user_last_ask w' u) (ask_calls c calls w)). t \<le> x"
proof (induction calls arbitrary: w t)
  case Nil
  show ?case by simp
next
  case (Cons call calls)
  obtain now v args where call: "call = (now, v, args)" by (cases call)
  let ?w' = "snd (ask c now v args w)"
  from ask_entry_grows [OF Cons.prems, of c now v args]
  obtain t' where t': "user_last_ask ?w' u = Some t'" and le: "t \<le> t'" by blast
  from Cons.IH [OF t'] have "\<forall>x\<in>set (List.map_filter (\<lambda>w'. user_last_ask w' u) (ask_calls c calls ?w')). t' \<le> x" .
  with le have "\<forall>x\<in>set (List.map_filter (\<lambda>w'. user_last_ask w' u) (ask_calls c calls ?w')). t \<le> x"
    by auto
  with call t' le show ?case
    by (simp add: Let_def)
qed

lemma ask_calls_sorted:
  "sorted (List.map_filter (\<lambda>w'. user_last_ask w' u) (ask_calls c calls w))"
proof (induction calls arbitrary: w)
  case Nil
  show ?case by simp
next
  case (Cons call calls)
  obtain now v args where call: "call = (now, v, args)" by (cases call)
  let ?w' = "snd (ask c now v args w)"
  show ?case
  proof (cases "user_last_ask ?w' u")
    case None
    with call Cons.IH [of ?w'] show ?thesis
      by (simp add: Let_def)
  next
    case (Some t')
    with call Cons.IH [of ?w'] ask_calls_above [OF Some, of c calls] show ?thesis
      by (simp add: Let_def)
  qed
qed

text \<open>
  Claim C8. For every user \<open>u\<close>, every starting world and every sequence of
  \<^verbatim>\<open>/ask\<close> calls with arbitrary clock readings, the timestamps stored for \<open>u\<close>,
  read after each call, are non-decreasing.
\<close>
theorem recorded_timestamps_sorted:
  "sorted (List.map_filter (\<lambda>w'. user_last_ask w' u) (w # ask_calls c calls w))"
proof (cases "user_last_ask w u")
  case None
  then show ?thesis
    using ask_calls_sorted [of u c calls w] by simp
next
  case (Some t)
  then show ?thesis
    using ask_calls_sorted [of u c calls w] ask_calls_above [OF Some, of c calls]
    by simp
qed

theorem recorded_timestamps_sorted_witness:
  "List.map_filter (\<lambda>w'. user_last_ask w' 7)
     (fresh # ask_calls obliging [(100, 7, []), (110, 7, []), (131, 7, []), (50, 7, []), (200, 8, [])] fresh)
     = [100, 100, 131, 131, 131]
   \<and> sorted (List.map_filter (\<lambda>w'. user_last_ask w' 7)
     (fresh # ask_calls obliging [(100, 7, []), (110, 7, []), (131, 7, []), (50, 7, []), (200, 8, [])] fresh))"
  using recorded_timestamps_sorted [of 7 fresh obliging "[(100, 7, []), (110, 7, []), (131, 7, []), (50, 7, []), (200, 8, [])]"]
  by (simp add: fresh_def ask_def rate_limited_def defaultdict_getitem_def
      ASK_INTERVAL_def reply_text_world ask_body_table Let_def)

end
